theory Spec2Isabelle
  imports Complex_Main "HOL-Library.Sublist" "HOL-Library.AList"
begin

section \<open>Python strings\<close>

text \<open>
  Text is modelled as \<open>string\<close> over ASCII. The string methods used by the agents
  (\<open>strip\<close>, \<open>upper\<close>, \<open>startswith\<close>, \<open>in\<close>, \<open>split\<close>, \<open>join\<close>)
  are given their Python meaning on ASCII text; characters above 127 are left alone by
  \<open>upper\<close> and are not whitespace.
\<close>

definition is_space :: "char \<Rightarrow> bool" where
  "is_space c = (let n = (of_char c :: nat) in (9 \<le> n \<and> n \<le> 13) \<or> (28 \<le> n \<and> n \<le> 32))"

definition to_upper :: "char \<Rightarrow> char" where
  "to_upper c = (let n = (of_char c :: nat) in if 97 \<le> n \<and> n \<le> 122 then char_of (n - 32) else c)"

definition to_lower :: "char \<Rightarrow> char" where
  "to_lower c = (let n = (of_char c :: nat) in if 65 \<le> n \<and> n \<le> 90 then char_of (n + 32) else c)"

definition upper :: "string \<Rightarrow> string" where
  "upper s = map to_upper s"

definition lower :: "string \<Rightarrow> string" where
  "lower s = map to_lower s"

definition lstrip :: "string \<Rightarrow> string" where
  "lstrip s = dropWhile is_space s"

definition rstrip :: "string \<Rightarrow> string" where
  "rstrip s = rev (dropWhile is_space (rev s))"

definition strip :: "string \<Rightarrow> string" where
  "strip s = rstrip (lstrip s)"

definition startswith :: "string \<Rightarrow> string \<Rightarrow> bool" where
  "startswith s p = prefix p s"



definition NL :: char where
  "NL = CHR 0x0A"

definition fence :: string where
  "fence = [CHR 0x60, CHR 0x60, CHR 0x60]"

text \<open>\<open>split_nl s\<close> is \<open>s.split("\n")\<close>; \<open>join sep xs\<close> is \<open>sep.join(xs)\<close>.\<close>

fun split_nl :: "string \<Rightarrow> string list" where
  "split_nl [] = [[]]"
| "split_nl (c # cs) =
     (if c = NL then [] # split_nl cs
      else (case split_nl cs of [] \<Rightarrow> [[c]] | l # ls \<Rightarrow> (c # l) # ls))"

fun join :: "string \<Rightarrow> string list \<Rightarrow> string" where
  "join sep [] = []"
| "join sep [x] = x"
| "join sep (x # y # ys) = x @ sep @ join sep (y # ys)"

function show_nat :: "nat \<Rightarrow> string" where
  "show_nat n =
     (if n < 10 then [char_of (48 + n)] else show_nat (n div 10) @ [char_of (48 + n mod 10)])"
  by pat_completeness auto
termination
  by (relation "measure id") auto

definition show_int :: "int \<Rightarrow> string" where
  "show_int i = (if i < 0 then CHR ''-'' # show_nat (nat (- i)) else show_nat (nat i))"

section \<open>Python values, dictionaries, exceptions\<close>

text \<open>
  The agents pass untyped dictionaries around (\<open>QueryFilters\<close> and \<open>RouterState\<close> are
  \<open>TypedDict\<close>s, checked by no one at run time), so values are a universal datatype and a
  dictionary is an association list with its insertion order. Finite floats are the
  rationals they denote.
\<close>

datatype pyval =
    PNone
  | PBool bool
  | PInt int
  | PFloat rat
  | PStr string
  | PList "pyval list"
  | PDict "(string \<times> pyval) list"

type_synonym pydict = "(string \<times> pyval) list"

datatype error =
    ValueError string
  | AttributeError string
  | TypeError string
  | KeyError string
  | DatabaseError string

text \<open>\<open>d.get(k)\<close>, \<open>d.get(k, default)\<close>, \<open>d[k]\<close>, \<open>{**d, k: v}\<close> and \<open>d.pop(k, default)\<close>.\<close>

definition dict_get :: "pydict \<Rightarrow> string \<Rightarrow> pyval" where
  "dict_get d k = (case map_of d k of None \<Rightarrow> PNone | Some v \<Rightarrow> v)"

definition dict_get_default :: "pydict \<Rightarrow> string \<Rightarrow> pyval \<Rightarrow> pyval" where
  "dict_get_default d k dflt = (case map_of d k of None \<Rightarrow> dflt | Some v \<Rightarrow> v)"

definition dict_index :: "pydict \<Rightarrow> string \<Rightarrow> error + pyval" where
  "dict_index d k = (case map_of d k of None \<Rightarrow> Inl (KeyError k) | Some v \<Rightarrow> Inr v)"

definition dict_set :: "pydict \<Rightarrow> string \<Rightarrow> pyval \<Rightarrow> pydict" where
  "dict_set d k v = AList.update k v d"

definition dict_pop :: "pydict \<Rightarrow> string \<Rightarrow> pyval \<Rightarrow> pyval \<times> pydict" where
  "dict_pop d k dflt = (dict_get_default d k dflt, AList.delete k d)"

text \<open>Truth value of a Python object, as \<open>if x:\<close> tests it.\<close>

fun py_truthy :: "pyval \<Rightarrow> bool" where
  "py_truthy PNone = False"
| "py_truthy (PBool b) = b"
| "py_truthy (PInt i) = (i \<noteq> 0)"
| "py_truthy (PFloat r) = (r \<noteq> 0)"
| "py_truthy (PStr s) = (s \<noteq> [])"
| "py_truthy (PList xs) = (xs \<noteq> [])"
| "py_truthy (PDict d) = (d \<noteq> [])"

section \<open>The environment: external services\<close>

text \<open>
  The language model, the JSON decoder, PostgreSQL, the embedding function
  (\<open>get_embedding\<close> of the module \<open>retrieval_generation\<close>) and Qdrant are not part of
  the three agents. Each is a field of the environment; every theorem holds for all
  environments. A chat completion is given by the text it answers with, as a function of
  what is substituted into the fixed prompt; a completion always has a text, and a
  service that is unreachable is not modelled. Every call to a service is recorded, in
  order, in the list of calls a function returns beside its result. The tracing
  decorators and the usage metadata have no part in any result and are left out.
\<close>

datatype QueryIntent = RAG | SQL | HYBRID

fun intent_value :: "QueryIntent \<Rightarrow> string" where
  "intent_value RAG = ''rag''"
| "intent_value SQL = ''sql''"
| "intent_value HYBRID = ''hybrid''"

text \<open>The conditions of the candidate query, with the parameter bound to each.\<close>

datatype sql_cond =
    PriceGe pyval
  | PriceLe pyval
  | RatingGe pyval
  | CategoryILike string
  | ParentAsinNotNull

record product =
  asin :: string
  parent_asin :: "string option"
  price :: "rat option"
  average_rating :: "rat option"
  main_category :: "string option"

record point =
  payload :: pydict
  vector :: "rat list"

datatype call =
    LlmClassify string
  | LlmExtract string
  | LlmSql string
  | LlmSqlAnswer string "pydict list"
  | LlmHybrid string
  | DbConnect
  | DbSelectAsins "sql_cond list" int
  | DbExecute string
  | DbClose
  | Embedding pyval
  | QueryPoints "rat list" "string option list" nat

record env =
  llm_classify :: "string \<Rightarrow> string"
  llm_extract :: "string \<Rightarrow> string"
  llm_sql :: "string \<Rightarrow> string"
  llm_sql_answer :: "string \<Rightarrow> pydict list \<Rightarrow> string"
  llm_hybrid :: "string \<Rightarrow> string"
  json_loads :: "string \<Rightarrow> pyval option"
  py_repr :: "pyval \<Rightarrow> string"
  products :: "product list"
  run_sql :: "string \<Rightarrow> error + pydict list"
  get_embedding :: "pyval \<Rightarrow> rat list"
  collection :: "point list"
  similarity :: "rat list \<Rightarrow> rat list \<Rightarrow> rat"

text \<open>
  \<open>str(x)\<close> as an f-string renders it. Strings, integers, booleans and \<open>None\<close> are
  rendered here; the shortest-round-trip rendering of a float and the rendering of
  containers are the environment's \<open>py_repr\<close>.
\<close>

definition py_str :: "env \<Rightarrow> pyval \<Rightarrow> string" where
  "py_str env v =
     (case v of
        PStr s \<Rightarrow> s
      | PNone \<Rightarrow> ''None''
      | PBool b \<Rightarrow> (if b then ''True'' else ''False'')
      | PInt i \<Rightarrow> show_int i
      | _ \<Rightarrow> py_repr env v)"

section \<open>Router agent (router.py)\<close>

definition intent_map :: "(string \<times> QueryIntent) list" where
  "intent_map = [(''RAG'', RAG), (''SQL'', SQL), (''HYBRID'', HYBRID)]"

definition classify_intent :: "env \<Rightarrow> string \<Rightarrow> call list \<times> (QueryIntent \<times> rat)" where
  "classify_intent env question =
     (let result = upper (strip (llm_classify env question));
          intent = (case map_of intent_map result of None \<Rightarrow> RAG | Some i \<Rightarrow> i);
          confidence = (if result \<in> set (map fst intent_map) then 9 / 10 else 1 / 2)
      in ([LlmClassify question], (intent, confidence)))"

text \<open>The clean-up of a fenced answer in \<open>extract_filters\<close>: the first line goes, and
  the last one too when it is a closing fence.\<close>

definition strip_fence :: "string \<Rightarrow> string" where
  "strip_fence content =
     (if startswith content fence
      then (let lines = split_nl content
            in join [NL] (if strip (last lines) = fence then butlast (tl lines) else tl lines))
      else content)"

definition extract_filters :: "env \<Rightarrow> string \<Rightarrow> call list \<times> (error + pydict \<times> pyval)" where
  "extract_filters env question =
     (let content = strip_fence (strip (llm_extract env question))
      in ([LlmExtract question],
          (case json_loads env content of
             None \<Rightarrow> Inr ([], PStr question)
           | Some (PDict parsed0) \<Rightarrow>
               (let (semantic_query, parsed) = dict_pop parsed0 ''semantic_query'' (PStr question);
                    filters = [(''min_price'', dict_get parsed ''min_price''),
                               (''max_price'', dict_get parsed ''max_price''),
                               (''min_rating'', dict_get parsed ''min_rating''),
                               (''category'', dict_get parsed ''category''),
                               (''sort_by'', dict_get parsed ''sort_by''),
                               (''limit'', dict_get parsed ''limit'')]
                in Inr (filters, semantic_query))
           | Some (PList xs) \<Rightarrow> Inl (TypeError ''pop expected at most 1 argument, got 2'')
           | Some v \<Rightarrow> Inl (AttributeError ''pop''))))"

definition classify_node :: "env \<Rightarrow> pydict \<Rightarrow> call list \<times> (error + pydict)" where
  "classify_node env state =
     (case dict_index state ''question'' of
        Inl e \<Rightarrow> ([], Inl e)
      | Inr q \<Rightarrow>
          (let (calls, (intent, confidence)) = classify_intent env (py_str env q)
           in (calls, Inr (dict_set (dict_set state ''intent'' (PStr (intent_value intent)))
                                    ''confidence'' (PFloat confidence)))))"

definition extract_filters_node :: "env \<Rightarrow> pydict \<Rightarrow> call list \<times> (error + pydict)" where
  "extract_filters_node env state =
     (case dict_index state ''question'' of
        Inl e \<Rightarrow> ([], Inl e)
      | Inr q \<Rightarrow>
          (case extract_filters env (py_str env q) of
             (calls, Inl e) \<Rightarrow> (calls, Inl e)
           | (calls, Inr (filters, semantic_query)) \<Rightarrow>
               (calls, Inr (dict_set (dict_set state ''filters'' (PDict filters))
                                     ''semantic_query'' semantic_query))))"

definition should_extract_filters :: "pydict \<Rightarrow> error + string" where
  "should_extract_filters state =
     (case dict_index state ''intent'' of
        Inl e \<Rightarrow> Inl e
      | Inr i \<Rightarrow> Inr (if i = PStr (intent_value HYBRID) then ''extract'' else ''done''))"

text \<open>
  The compiled graph of \<open>build_router_graph\<close>: entry point \<open>classify\<close>, then the
  conditional edge, which leads to \<open>extract_filters\<close> and from there to the end, or to
  the end at once.
\<close>

definition router_invoke :: "env \<Rightarrow> pydict \<Rightarrow> call list \<times> (error + pydict)" where
  "router_invoke env state =
     (case classify_node env state of
        (c1, Inl e) \<Rightarrow> (c1, Inl e)
      | (c1, Inr s1) \<Rightarrow>
          (case should_extract_filters s1 of
             Inl e \<Rightarrow> (c1, Inl e)
           | Inr edge \<Rightarrow>
               if edge = ''extract''
               then (case extract_filters_node env s1 of (c2, r) \<Rightarrow> (c1 @ c2, r))
               else (c1, Inr s1)))"

definition route_query :: "env \<Rightarrow> string \<Rightarrow> call list \<times> (error + pydict)" where
  "route_query env question =
     (let initial_state = [(''question'', PStr question),
                           (''intent'', PNone),
                           (''filters'', PNone),
                           (''semantic_query'', PNone),
                           (''confidence'', PFloat 0)]
      in router_invoke env initial_state)"

section \<open>SQL agent (sql_agent.py)\<close>








subsection \<open>The candidate query and the engine that runs it\<close>

text \<open>
  PostgreSQL's \<open>LIKE\<close>: \<open>%\<close> stands for any run of characters, \<open>_\<close> for any one
  character, and a backslash takes the next character literally. \<open>ILIKE\<close> is \<open>LIKE\<close>
  without regard to case.
\<close>

fun like_match :: "string \<Rightarrow> string \<Rightarrow> bool" where
  "like_match [] t = (t = [])"
| "like_match (p # ps) t =
     (if p = CHR ''%'' then
        (like_match ps t \<or> (case t of [] \<Rightarrow> False | c # cs \<Rightarrow> like_match (p # ps) cs))
      else if p = CHR ''_'' then
        (case t of [] \<Rightarrow> False | c # cs \<Rightarrow> like_match ps cs)
      else if p = CHR 0x5C then
        (case ps of
           [] \<Rightarrow> False
         | q # qs \<Rightarrow> (case t of [] \<Rightarrow> False | c # cs \<Rightarrow> c = q \<and> like_match qs cs))
      else (case t of [] \<Rightarrow> False | c # cs \<Rightarrow> c = p \<and> like_match ps cs))"

definition ilike :: "string \<Rightarrow> string \<Rightarrow> bool" where
  "ilike t pat = like_match (lower pat) (lower t)"

fun num_of :: "pyval \<Rightarrow> rat option" where
  "num_of (PInt i) = Some (of_int i)"
| "num_of (PFloat r) = Some r"
| "num_of v = None"

text \<open>A comparison whose parameter is not a number is refused by the engine.\<close>

fun cond_typed :: "sql_cond \<Rightarrow> bool" where
  "cond_typed (PriceGe v) = (num_of v \<noteq> None)"
| "cond_typed (PriceLe v) = (num_of v \<noteq> None)"
| "cond_typed (RatingGe v) = (num_of v \<noteq> None)"
| "cond_typed (CategoryILike pat) = True"
| "cond_typed ParentAsinNotNull = True"

text \<open>A row passes a condition when the condition is true of it; on a \<open>NULL\<close> column
  the comparison is unknown and the row does not pass.\<close>

fun cond_holds :: "sql_cond \<Rightarrow> product \<Rightarrow> bool" where
  "cond_holds (PriceGe v) row =
     (case (price row, num_of v) of (Some p, Some x) \<Rightarrow> x \<le> p | _ \<Rightarrow> False)"
| "cond_holds (PriceLe v) row =
     (case (price row, num_of v) of (Some p, Some x) \<Rightarrow> p \<le> x | _ \<Rightarrow> False)"
| "cond_holds (RatingGe v) row =
     (case (average_rating row, num_of v) of (Some r, Some x) \<Rightarrow> x \<le> r | _ \<Rightarrow> False)"
| "cond_holds (CategoryILike pat) row =
     (case main_category row of None \<Rightarrow> False | Some c \<Rightarrow> ilike c pat)"
| "cond_holds ParentAsinNotNull row = (parent_asin row \<noteq> None)"

text \<open>
  \<open>SELECT DISTINCT parent_asin FROM products WHERE c1 AND ... AND cn LIMIT n\<close>. The engine
  is free in the order of the rows; the model takes the table's order.
\<close>

definition db_select_asins :: "product list \<Rightarrow> sql_cond list \<Rightarrow> int \<Rightarrow> error + string option list" where
  "db_select_asins table conds limit =
     (if \<not> list_all cond_typed conds then Inl (DatabaseError ''parameter type'')
      else if limit < 0 then Inl (DatabaseError ''LIMIT must not be negative'')
      else Inr (take (nat limit)
                  (remdups (map parent_asin
                     (filter (\<lambda>row. list_all (\<lambda>c. cond_holds c row) conds) table)))))"

definition get_asins_by_filter ::
  "env \<Rightarrow> pyval \<Rightarrow> pyval \<Rightarrow> pyval \<Rightarrow> pyval \<Rightarrow> int \<Rightarrow> call list \<times> (error + string option list)" where
  "get_asins_by_filter env min_price max_price min_rating category limit =
     (let conditions =
            (if min_price \<noteq> PNone then [PriceGe min_price] else []) @
            (if max_price \<noteq> PNone then [PriceLe max_price] else []) @
            (if min_rating \<noteq> PNone then [RatingGe min_rating] else []) @
            (if category \<noteq> PNone then [CategoryILike (''%'' @ py_str env category @ ''%'')] else []);
          where_clause = conditions @ [ParentAsinNotNull]
      in ([DbConnect, DbSelectAsins where_clause limit, DbClose],
          db_select_asins (products env) where_clause limit))"

section \<open>Hybrid pipeline (hybrid.py)\<close>

subsection \<open>The vector search\<close>

text \<open>
  Qdrant's \<open>query_points\<close> with a \<open>MatchAny\<close> filter on the payload key
  \<open>parent_asin\<close>: the points whose payload value is one of the given values, scored
  against the query vector, best score first, at most \<open>limit\<close> of them.
\<close>

definition match_any :: "string option list \<Rightarrow> point \<Rightarrow> bool" where
  "match_any vals p =
     (case map_of (payload p) ''parent_asin'' of
        Some (PStr a) \<Rightarrow> Some a \<in> set vals
      | _ \<Rightarrow> False)"

definition query_points :: "env \<Rightarrow> rat list \<Rightarrow> string option list \<Rightarrow> nat \<Rightarrow> (point \<times> rat) list" where
  "query_points env query vals limit =
     take limit
       (sort_key (\<lambda>h. - snd h)
          (map (\<lambda>p. (p, similarity env query (vector p)))
             (filter (match_any vals) (collection env))))"

subsection \<open>Retrieval\<close>

record retrieval =
  retrieved_context_ids :: "pyval list"
  retrieved_context :: "pyval list"
  retrieved_context_ratings :: "pyval list"
  similarity_scores :: "rat list"
  filter_count :: nat

text \<open>The loop over \<open>results.points\<close>: four appends for each hit, in the source's
  order; a payload without one of the keys raises \<open>KeyError\<close>.\<close>

fun collect_points :: "(point \<times> rat) list \<Rightarrow> retrieval \<Rightarrow> error + retrieval" where
  "collect_points [] acc = Inr acc"
| "collect_points (h # hs) acc =
     (case dict_index (payload (fst h)) ''parent_asin'' of
        Inl e \<Rightarrow> Inl e
      | Inr i \<Rightarrow>
     (case dict_index (payload (fst h)) ''description'' of
        Inl e \<Rightarrow> Inl e
      | Inr d \<Rightarrow>
     (case dict_index (payload (fst h)) ''average_rating'' of
        Inl e \<Rightarrow> Inl e
      | Inr r \<Rightarrow>
          collect_points hs
            (acc\<lparr>retrieved_context_ids := retrieved_context_ids acc @ [i],
                 retrieved_context := retrieved_context acc @ [d],
                 retrieved_context_ratings := retrieved_context_ratings acc @ [r],
                 similarity_scores := similarity_scores acc @ [snd h]\<rparr>))))"

text \<open>
  \<open>hybrid_retrieve\<close>. The parameter \<open>k\<close> is optional (\<open>None\<close>: the caller leaves it
  out, and the default of the source applies); a limit is a natural number. \<open>filters\<close>
  is whatever the caller passes; only a dictionary has \<open>get\<close>.
\<close>

definition hybrid_retrieve ::
  "env \<Rightarrow> pyval \<Rightarrow> pyval \<Rightarrow> nat option \<Rightarrow> call list \<times> (error + retrieval)" where
  "hybrid_retrieve env semantic_query filters k_arg =
     (let k = (case k_arg of None \<Rightarrow> 10 | Some n \<Rightarrow> n)
      in (case filters of
            PDict f \<Rightarrow>
              (case get_asins_by_filter env (dict_get f ''min_price'') (dict_get f ''max_price'')
                      (dict_get f ''min_rating'') (dict_get f ''category'') 100 of
                 (c1, Inl e) \<Rightarrow> (c1, Inl e)
               | (c1, Inr filtered_asins) \<Rightarrow>
                   if filtered_asins = []
                   then (c1, Inr \<lparr>retrieved_context_ids = [], retrieved_context = [],
                                  retrieved_context_ratings = [], similarity_scores = [],
                                  filter_count = 0\<rparr>)
                   else (let query_embedding = get_embedding env semantic_query;
                             results = query_points env query_embedding filtered_asins k
                         in (c1 @ [Embedding semantic_query,
                                   QueryPoints query_embedding filtered_asins k],
                             collect_points results
                               \<lparr>retrieved_context_ids = [], retrieved_context = [],
                                retrieved_context_ratings = [], similarity_scores = [],
                                filter_count = length filtered_asins\<rparr>)))
          | _ \<Rightarrow> ([], Inl (AttributeError ''get''))))"

subsection \<open>Formatting\<close>

text \<open>\<open>format(x, ".2f")\<close> of a finite float: the nearest number with two decimals, a tie
  going to the even one, and the sign of a negative number kept even when it rounds to zero.\<close>

definition round_half_even :: "rat \<Rightarrow> int" where
  "round_half_even q =
     (let f = \<lfloor>q\<rfloor>; d = q - of_int f
      in if d < 1 / 2 then f else if 1 / 2 < d then f + 1 else if even f then f else f + 1)"

definition fmt_2f :: "rat \<Rightarrow> string" where
  "fmt_2f q =
     (let n = nat (round_half_even (\<bar>q\<bar> * 100))
      in (if q < 0 then ''-'' else []) @ show_nat (n div 100) @ ''.'' @
         [char_of (48 + n mod 100 div 10), char_of (48 + n mod 10)])"

definition zip4 :: "'a list \<Rightarrow> 'b list \<Rightarrow> 'c list \<Rightarrow> 'd list \<Rightarrow> ('a \<times> 'b \<times> 'c \<times> 'd) list" where
  "zip4 as bs cs ds = zip as (zip bs (zip cs ds))"

text \<open>The loop of \<open>format_hybrid_context\<close>, appending to \<open>formatted\<close>.\<close>

fun format_entries :: "env \<Rightarrow> (pyval \<times> pyval \<times> pyval \<times> rat) list \<Rightarrow> string \<Rightarrow> string" where
  "format_entries env [] formatted = formatted"
| "format_entries env ((i, chunk, rating, score) # rest) formatted =
     format_entries env rest
       (formatted @ ''- ID: '' @ py_str env i @ '', rating: '' @ py_str env rating @
          '', relevance: '' @ fmt_2f score @ [NL] @
        ''  Description: '' @ py_str env chunk @ [NL, NL])"

definition format_hybrid_context :: "env \<Rightarrow> retrieval \<Rightarrow> pydict \<Rightarrow> string" where
  "format_hybrid_context env context filters =
     (let formatted = ''(Filtered from '' @ show_nat (filter_count context) @ '' products'';
          formatted = (if py_truthy (dict_get filters ''max_price'')
                       then formatted @ '', max price: $'' @ py_str env (dict_get filters ''max_price'')
                       else formatted);
          formatted = (if py_truthy (dict_get filters ''min_rating'')
                       then formatted @ '', min rating: '' @ py_str env (dict_get filters ''min_rating'')
                       else formatted);
          formatted = (if py_truthy (dict_get filters ''category'')
                       then formatted @ '', category: '' @ py_str env (dict_get filters ''category'')
                       else formatted);
          formatted = formatted @ '')'' @ [NL, NL]
      in format_entries env
           (zip4 (retrieved_context_ids context) (retrieved_context context)
                 (retrieved_context_ratings context) (similarity_scores context))
           formatted)"

definition build_hybrid_prompt :: "env \<Rightarrow> string \<Rightarrow> string \<Rightarrow> pydict \<Rightarrow> string" where
  "build_hybrid_prompt env formatted_context question filters =
     (let price_range =
            (if py_truthy (dict_get filters ''min_price'')
             then ''from $'' @ py_str env (dict_get filters ''min_price'') else []) @
            (if py_truthy (dict_get filters ''max_price'')
             then '' up to $'' @ py_str env (dict_get filters ''max_price'') else []);
          filter_summary =
            (if py_truthy (dict_get filters ''min_price'') \<or> py_truthy (dict_get filters ''max_price'')
             then [''Price: '' @ strip price_range] else []) @
            (if py_truthy (dict_get filters ''min_rating'')
             then [''Rating: '' @ py_str env (dict_get filters ''min_rating'') @ ''+ stars''] else []) @
            (if py_truthy (dict_get filters ''category'')
             then [''Category: '' @ py_str env (dict_get filters ''category'')] else [])
      in join [NL]
           [''You are a shopping assistant helping customers find products.'',
            [],
            ''The user is looking for products with these criteria:'',
            (if filter_summary \<noteq> [] then join [NL] filter_summary else ''No specific filters''),
            [],
            ''Here are the matching products from our catalog:'',
            [],
            formatted_context,
            [],
            ''User question: '' @ question,
            [],
            ''Instructions:'',
            ''- Recommend the best matching products based on both the filters and the user'' @
              [CHR 0x27] @ ''s needs'',
            ''- Mention specific prices and ratings when available'',
            ''- If the results are limited, acknowledge the filtering criteria'',
            ''- Be helpful and conversational''])"

definition hybrid_generate :: "env \<Rightarrow> string \<Rightarrow> call list \<times> string" where
  "hybrid_generate env prompt = ([LlmHybrid prompt], llm_hybrid env prompt)"

subsection \<open>The pipeline\<close>

text \<open>
  \<open>hybrid_pipeline\<close>; \<open>filters\<close> and \<open>semantic_query\<close> default to \<open>None\<close>, and
  \<open>top_k\<close> is optional as \<open>k\<close> is above.
\<close>

definition hybrid_pipeline ::
  "env \<Rightarrow> string \<Rightarrow> pyval \<Rightarrow> pyval \<Rightarrow> nat option \<Rightarrow> call list \<times> (error + pydict)" where
  "hybrid_pipeline env question filters_arg semantic_query_arg top_k_arg =
     (let top_k = (case top_k_arg of None \<Rightarrow> 5 | Some n \<Rightarrow> n)
      in (case (if filters_arg = PNone
                then (case route_query env question of
                        (c, Inl e) \<Rightarrow> (c, Inl e)
                      | (c, Inr route_result) \<Rightarrow>
                          (c, Inr (dict_get_default route_result ''filters'' (PDict []),
                                   dict_get_default route_result ''semantic_query'' (PStr question))))
                else ([], Inr (filters_arg, semantic_query_arg))) of
            (c0, Inl e) \<Rightarrow> (c0, Inl e)
          | (c0, Inr (filters, semantic_query0)) \<Rightarrow>
              (let semantic_query = (if semantic_query0 = PNone then PStr question else semantic_query0)
               in (case hybrid_retrieve env semantic_query filters (Some top_k) of
                     (c1, Inl e) \<Rightarrow> (c0 @ c1, Inl e)
                   | (c1, Inr retrieved) \<Rightarrow>
                       (case filters of
                          PDict f \<Rightarrow>
                            (let formatted_context = format_hybrid_context env retrieved f;
                                 prompt = build_hybrid_prompt env formatted_context question f;
                                 (c2, answer) = hybrid_generate env prompt
                             in (c0 @ c1 @ c2,
                                 Inr [(''answer'', PStr answer),
                                      (''question'', PStr question),
                                      (''intent'', PStr ''hybrid''),
                                      (''filters'', filters),
                                      (''semantic_query'', semantic_query),
                                      (''retrieved_context_ids'', PList (retrieved_context_ids retrieved)),
                                      (''retrieved_context'', PList (retrieved_context retrieved)),
                                      (''similarity_scores'', PList (map PFloat (similarity_scores retrieved))),
                                      (''filter_count'', PInt (int (filter_count retrieved)))]))
                        | _ \<Rightarrow> (c0 @ c1, Inl (AttributeError ''get'')))))))"

section \<open>Observations on a run, and the specification's notions\<close>

text \<open>How often a run called the filter extractor, the embedding service, the vector
  search and the database.\<close>

definition extractor_calls :: "call list \<Rightarrow> nat" where
  "extractor_calls cs = length (filter (\<lambda>c. case c of LlmExtract q \<Rightarrow> True | _ \<Rightarrow> False) cs)"

definition embedding_calls :: "call list \<Rightarrow> nat" where
  "embedding_calls cs = length (filter (\<lambda>c. case c of Embedding t \<Rightarrow> True | _ \<Rightarrow> False) cs)"

definition search_calls :: "call list \<Rightarrow> nat" where
  "search_calls cs = length (filter (\<lambda>c. case c of QueryPoints q vs n \<Rightarrow> True | _ \<Rightarrow> False) cs)"


text \<open>The limits a run asked the vector search for, and the number of hits in a result.\<close>

definition requested_limits :: "call list \<Rightarrow> nat list" where
  "requested_limits cs = concat (map (\<lambda>c. case c of QueryPoints q vs n \<Rightarrow> [n] | _ \<Rightarrow> []) cs)"

definition result_size :: "error + retrieval \<Rightarrow> nat" where
  "result_size res = (case res of Inl e \<Rightarrow> 0 | Inr r \<Rightarrow> length (similarity_scores r))"

text \<open>The candidate set that \<open>hybrid_retrieve\<close> resolves for a filters dictionary
  (step 1 of the function).\<close>

definition candidates :: "env \<Rightarrow> pydict \<Rightarrow> error + string option list" where
  "candidates env f =
     snd (get_asins_by_filter env (dict_get f ''min_price'') (dict_get f ''max_price'')
            (dict_get f ''min_rating'') (dict_get f ''category'') 100)"









text \<open>The scores of a result run from the best down.\<close>

definition descending :: "rat list \<Rightarrow> bool" where
  "descending xs = sorted (rev xs)"

section \<open>A small shop\<close>

text \<open>
  A concrete environment on which the theorems below are run: a language model that
  answers three questions, a decoder given on the texts that reach it, a catalogue of
  seven products under six parents, and a collection with one point for each product.
\<close>

definition shop_classify :: "string \<Rightarrow> string" where
  "shop_classify q =
     (if q = ''best headphones under $100'' then ''HYBRID''
      else if q = ''top rated coffee makers'' then ''Hybrid'' @ [NL]
      else if q = ''cheap wireless earbuds'' then ''hybrid''
      else if q = ''how many products cost over $500'' then '' sql''
      else ''RAG'')"

definition shop_extract :: "string \<Rightarrow> string" where
  "shop_extract q =
     (if q = ''best headphones under $100'' then fence @ ''json'' @ [NL] @ ''{}'' @ [NL] @ fence
      else if q = ''top rated coffee makers'' then ''[]''
      else ''Sorry, I cannot do that.'')"

definition shop_json_loads :: "string \<Rightarrow> pyval option" where
  "shop_json_loads s =
     (if s = ''{}'' then Some (PDict []) else if s = ''[]'' then Some (PList []) else None)"

definition shop_sql :: "string \<Rightarrow> string" where
  "shop_sql q =
     (if q = ''remove everything'' then ''DROP TABLE products''
      else if q = ''list and clean'' then ''select asin from products; delete from products''
      else ''SELECT COUNT(*) FROM products LIMIT 50'')"

definition item :: "string \<Rightarrow> string \<Rightarrow> rat \<Rightarrow> rat \<Rightarrow> string \<Rightarrow> product" where
  "item a p pr rt cat =
     \<lparr>asin = a, parent_asin = Some p, price = Some pr, average_rating = Some rt,
      main_category = Some cat\<rparr>"

definition shop_products :: "product list" where
  "shop_products =
     [item ''B01'' ''A'' 20 4 ''Toys & Games'',
      item ''B02'' ''A'' 25 4 ''Toys & Games'',
      item ''B03'' ''C'' 80 (9 / 2) ''Electronics'',
      item ''B04'' ''D'' 120 (7 / 2) ''Electronics'',
      item ''B05'' ''E'' 15 3 ''Home'',
      item ''B06'' ''F'' 60 5 ''Home'',
      item ''B07'' ''G'' 300 (5 / 2) ''Electronics'',
      \<lparr>asin = ''B08'', parent_asin = None, price = Some 5, average_rating = None,
       main_category = Some ''Home''\<rparr>]"

definition dot :: "string \<Rightarrow> string \<Rightarrow> rat \<Rightarrow> rat list \<Rightarrow> point" where
  "dot p d r v =
     \<lparr>payload = [(''parent_asin'', PStr p), (''description'', PStr d), (''average_rating'', PFloat r)],
      vector = v\<rparr>"

definition shop_collection :: "point list" where
  "shop_collection =
     [dot ''A'' ''wooden blocks, red'' 4 [1 / 2],
      dot ''A'' ''wooden blocks, blue'' 4 [3 / 4],
      dot ''C'' ''headphones'' (9 / 2) [9 / 10],
      dot ''D'' ''speaker'' (7 / 2) [1 / 4],
      dot ''E'' ''kettle'' 3 [1 / 8],
      dot ''F'' ''lamp'' 5 [3 / 8],
      dot ''G'' ''camera'' (5 / 2) [5 / 8]]"

text \<open>The ratings of the shop as Python prints them.\<close>

definition shop_repr :: "pyval \<Rightarrow> string" where
  "shop_repr v =
     (if v = PFloat 5 then ''5.0'' else if v = PFloat (9 / 2) then ''4.5''
      else if v = PFloat 4 then ''4.0'' else if v = PFloat (7 / 2) then ''3.5''
      else if v = PFloat 3 then ''3.0'' else if v = PFloat (5 / 2) then ''2.5''
      else ''?'')"

definition shop :: env where
  "shop =
     \<lparr>llm_classify = shop_classify,
      llm_extract = shop_extract,
      llm_sql = shop_sql,
      llm_sql_answer = (\<lambda>q rows. ''There are '' @ show_nat (length rows) @ '' rows.''),
      llm_hybrid = (\<lambda>prompt. ''Here is what I found.''),
      json_loads = shop_json_loads,
      py_repr = shop_repr,
      products = shop_products,
      run_sql = (\<lambda>s. Inr []),
      get_embedding = (\<lambda>t. [1]),
      collection = shop_collection,
      similarity = (\<lambda>a b. sum_list (map2 (*) a b))\<rparr>"

section \<open>Case folding\<close>











section \<open>The router\<close>



lemma classify_intent_calls: "fst (classify_intent env q) = [LlmClassify q]"
  by (simp add: classify_intent_def Let_def)

lemma classify_node_initial:
  "classify_node env [(''question'', PStr q), (''intent'', PNone), (''filters'', PNone),
                      (''semantic_query'', PNone), (''confidence'', PFloat 0)] =
     ([LlmClassify q],
      Inr [(''question'', PStr q),
           (''intent'', PStr (intent_value (fst (snd (classify_intent env q))))),
           (''filters'', PNone), (''semantic_query'', PNone),
           (''confidence'', PFloat (snd (snd (classify_intent env q))))])"
proof -
  obtain i c where ic: "classify_intent env q = ([LlmClassify q], (i, c))"
    using classify_intent_calls [of env q] by (metis prod.collapse)
  show ?thesis
    by (simp add: classify_node_def dict_index_def dict_set_def py_str_def ic)
qed

lemma intent_value_inj: "intent_value i = intent_value HYBRID \<longleftrightarrow> i = HYBRID"
  by (cases i) simp_all

lemma should_extract_classified:
  "should_extract_filters [(''question'', a), (''intent'', PStr (intent_value i)), (''filters'', b),
                           (''semantic_query'', c), (''confidence'', d)] =
     Inr (if i = HYBRID then ''extract'' else ''done'')"
  by (simp add: should_extract_filters_def dict_index_def intent_value_inj del: intent_value.simps)

lemma extract_filters_calls: "fst (extract_filters env q) = [LlmExtract q]"
  by (simp add: extract_filters_def Let_def)

lemma extract_filters_node_calls:
  "map_of state ''question'' = Some (PStr q) \<Longrightarrow> fst (extract_filters_node env state) = [LlmExtract q]"
  using extract_filters_calls [of env q]
  by (auto simp: extract_filters_node_def dict_index_def py_str_def split: prod.splits sum.splits)

lemma route_query_not_hybrid:
  assumes "fst (snd (classify_intent env q)) \<noteq> HYBRID"
  shows "route_query env q =
     ([LlmClassify q],
      Inr [(''question'', PStr q),
           (''intent'', PStr (intent_value (fst (snd (classify_intent env q))))),
           (''filters'', PNone), (''semantic_query'', PNone),
           (''confidence'', PFloat (snd (snd (classify_intent env q))))])"
  using assms
  by (simp add: route_query_def router_invoke_def classify_node_initial should_extract_classified
           del: intent_value.simps)

lemma route_query_hybrid_calls:
  assumes "fst (snd (classify_intent env q)) = HYBRID"
  shows "fst (route_query env q) = [LlmClassify q, LlmExtract q]"
proof -
  let ?s = "[(''question'', PStr q), (''intent'', PStr (intent_value HYBRID)),
             (''filters'', PNone), (''semantic_query'', PNone),
             (''confidence'', PFloat (snd (snd (classify_intent env q))))]"
  have "fst (extract_filters_node env ?s) = [LlmExtract q]"
    by (rule extract_filters_node_calls) simp
  then show ?thesis
    using assms
    by (auto simp: route_query_def router_invoke_def classify_node_initial should_extract_classified
             split: prod.splits simp del: intent_value.simps)
qed

lemma shop_simps:
  "llm_classify shop = shop_classify" "llm_extract shop = shop_extract"
  "json_loads shop = shop_json_loads" "llm_sql shop = shop_sql"
  "products shop = shop_products" "collection shop = shop_collection"
  by (simp_all add: shop_def)

text \<open>
  Claim C3. When the classified intent is HYBRID, a run of \<open>route_query\<close> calls the
  filter extractor exactly once. When it is RAG or SQL, the run never calls it, and
  the state it returns carries the intent and has \<open>filters\<close> and \<open>semantic_query\<close>
  still \<open>None\<close>.
\<close>

theorem route_query_extractor_calls:
  "(fst (snd (classify_intent env question)) = HYBRID \<longrightarrow>
      extractor_calls (fst (route_query env question)) = 1) \<and>
   (fst (snd (classify_intent env question)) \<noteq> HYBRID \<longrightarrow>
      extractor_calls (fst (route_query env question)) = 0 \<and>
      (\<exists>state. snd (route_query env question) = Inr state \<and>
         dict_index state ''intent'' =
           Inr (PStr (intent_value (fst (snd (classify_intent env question))))) \<and>
         dict_index state ''filters'' = Inr PNone \<and>
         dict_index state ''semantic_query'' = Inr PNone))"
proof (intro conjI impI)
  assume "fst (snd (classify_intent env question)) = HYBRID"
  then show "extractor_calls (fst (route_query env question)) = 1"
    by (simp add: route_query_hybrid_calls extractor_calls_def)
next
  assume h: "fst (snd (classify_intent env question)) \<noteq> HYBRID"
  show "extractor_calls (fst (route_query env question)) = 0"
    by (simp add: route_query_not_hybrid [OF h] extractor_calls_def)
  show "\<exists>state. snd (route_query env question) = Inr state \<and>
         dict_index state ''intent'' =
           Inr (PStr (intent_value (fst (snd (classify_intent env question))))) \<and>
         dict_index state ''filters'' = Inr PNone \<and>
         dict_index state ''semantic_query'' = Inr PNone"
    by (simp add: route_query_not_hybrid [OF h] dict_index_def del: intent_value.simps)
qed

text \<open>The shop's model answers HYBRID to one question and sql to another.\<close>

theorem route_query_extractor_calls_witness:
  "fst (snd (classify_intent shop ''best headphones under $100'')) = HYBRID \<and>
   extractor_calls (fst (route_query shop ''best headphones under $100'')) = 1 \<and>
   fst (snd (classify_intent shop ''how many products cost over $500'')) \<noteq> HYBRID \<and>
   extractor_calls (fst (route_query shop ''how many products cost over $500'')) = 0 \<and>
   (\<exists>state. snd (route_query shop ''how many products cost over $500'') = Inr state \<and>
      dict_index state ''intent'' = Inr (PStr ''sql'') \<and>
      dict_index state ''filters'' = Inr PNone \<and>
      dict_index state ''semantic_query'' = Inr PNone)"
proof -
  have a: "fst (snd (classify_intent shop ''best headphones under $100'')) = HYBRID"
    by code_simp
  have b: "fst (snd (classify_intent shop ''how many products cost over $500'')) = SQL"
    by code_simp
  show ?thesis
    using route_query_extractor_calls [of shop "''best headphones under $100''"]
      route_query_extractor_calls [of shop "''how many products cost over $500''"]
    by (simp add: a b)
qed




text \<open>
  Claim C10. For a question that is not classified HYBRID, the state \<open>route_query\<close>
  returns has the key \<open>filters\<close> with the value \<open>None\<close>, so \<open>get("filters", {})\<close> yields
  \<open>None\<close> and not the empty dictionary; \<open>hybrid_pipeline\<close> called without filters then
  hands \<open>None\<close> to \<open>hybrid_retrieve\<close>, whose first \<open>filters.get\<close> raises, before any
  database, embedding or search call.
\<close>

theorem hybrid_pipeline_unrouted_filters:
  assumes "fst (snd (classify_intent env question)) \<noteq> HYBRID"
  shows "\<exists>state. snd (route_query env question) = Inr state \<and>
           map_of state ''filters'' = Some PNone \<and>
           dict_get_default state ''filters'' (PDict []) = PNone \<and>
           hybrid_pipeline env question PNone PNone top_k =
             ([LlmClassify question], Inl (AttributeError ''get''))"
  by (simp add: route_query_not_hybrid [OF assms] hybrid_pipeline_def hybrid_retrieve_def
        dict_get_default_def Let_def del: intent_value.simps)

theorem hybrid_pipeline_unrouted_filters_witness:
  "fst (snd (classify_intent shop ''how many products cost over $500'')) \<noteq> HYBRID \<and>
   hybrid_pipeline shop ''how many products cost over $500'' PNone PNone None =
     ([LlmClassify ''how many products cost over $500''], Inl (AttributeError ''get''))"
proof -
  have h: "fst (snd (classify_intent shop ''how many products cost over $500'')) \<noteq> HYBRID"
    by code_simp
  show ?thesis
    using h hybrid_pipeline_unrouted_filters [OF h, of None] by blast
qed

section \<open>Hybrid retrieval\<close>

lemma get_asins_calls:
  "fst (get_asins_by_filter env a b c d n) \<in> {cs. embedding_calls cs = 0 \<and> search_calls cs = 0 \<and> requested_limits cs = []}"
  by (simp add: get_asins_by_filter_def Let_def embedding_calls_def search_calls_def requested_limits_def)

lemma hybrid_retrieve_dict:
  "hybrid_retrieve env sq (PDict f) k_arg =
     (let c1 = fst (get_asins_by_filter env (dict_get f ''min_price'') (dict_get f ''max_price'')
                      (dict_get f ''min_rating'') (dict_get f ''category'') 100);
          k = (case k_arg of None \<Rightarrow> 10 | Some n \<Rightarrow> n)
      in case candidates env f of
           Inl e \<Rightarrow> (c1, Inl e)
         | Inr cands \<Rightarrow>
             if cands = []
             then (c1, Inr \<lparr>retrieved_context_ids = [], retrieved_context = [],
                            retrieved_context_ratings = [], similarity_scores = [],
                            filter_count = 0\<rparr>)
             else (c1 @ [Embedding sq, QueryPoints (get_embedding env sq) cands k],
                   collect_points (query_points env (get_embedding env sq) cands k)
                     \<lparr>retrieved_context_ids = [], retrieved_context = [],
                      retrieved_context_ratings = [], similarity_scores = [],
                      filter_count = length cands\<rparr>))"
  by (simp add: hybrid_retrieve_def candidates_def Let_def split: prod.splits sum.splits)

text \<open>
  Claim C2. For every semantic query and every filters dictionary: when the candidate
  resolver returns no identifier, \<open>hybrid_retrieve\<close> returns the four sequences empty
  and \<open>filter_count\<close> 0, and its run calls neither the embedding service nor the vector
  search.
\<close>

theorem hybrid_retrieve_empty_candidates:
  assumes "candidates env f = Inr []"
  shows "snd (hybrid_retrieve env semantic_query (PDict f) k) =
           Inr \<lparr>retrieved_context_ids = [], retrieved_context = [],
                retrieved_context_ratings = [], similarity_scores = [], filter_count = 0\<rparr> \<and>
         embedding_calls (fst (hybrid_retrieve env semantic_query (PDict f) k)) = 0 \<and>
         search_calls (fst (hybrid_retrieve env semantic_query (PDict f) k)) = 0"
  using assms get_asins_calls [of env "dict_get f ''min_price''" "dict_get f ''max_price''"
      "dict_get f ''min_rating''" "dict_get f ''category''" 100]
  by (simp add: hybrid_retrieve_dict Let_def)

lemma collect_points_shape:
  "collect_points hs acc = Inr r \<Longrightarrow>
     length (retrieved_context_ids r) = length (retrieved_context_ids acc) + length hs \<and>
     length (retrieved_context r) = length (retrieved_context acc) + length hs \<and>
     length (retrieved_context_ratings r) = length (retrieved_context_ratings acc) + length hs \<and>
     similarity_scores r = similarity_scores acc @ map snd hs \<and>
     filter_count r = filter_count acc"
proof (induction hs arbitrary: acc)
  case Nil
  then show ?case by simp
next
  case (Cons h hs)
  from Cons.prems obtain i d t where
    "collect_points hs
       (acc\<lparr>retrieved_context_ids := retrieved_context_ids acc @ [i],
            retrieved_context := retrieved_context acc @ [d],
            retrieved_context_ratings := retrieved_context_ratings acc @ [t],
            similarity_scores := similarity_scores acc @ [snd h]\<rparr>) = Inr r"
    by (auto split: sum.splits)
  from Cons.IH [OF this] show ?case by simp
qed

text \<open>The loop returns a result when every hit has the three payload keys it reads.\<close>

lemma collect_points_returns:
  assumes "\<forall>h \<in> set hs. {''parent_asin'', ''description'', ''average_rating''} \<subseteq> dom (map_of (payload (fst h)))"
  shows "\<exists>r. collect_points hs acc = Inr r"
  using assms
proof (induction hs arbitrary: acc)
  case Nil
  then show ?case by simp
next
  case (Cons h hs)
  then obtain i d t where
    "map_of (payload (fst h)) ''parent_asin'' = Some i"
    "map_of (payload (fst h)) ''description'' = Some d"
    "map_of (payload (fst h)) ''average_rating'' = Some t"
    by auto
  then show ?case
    using Cons by (simp add: dict_index_def)
qed

lemma length_query_points: "length (query_points env q vals k) \<le> k"
  by (simp add: query_points_def)

lemma length_query_points_matching:
  "length (query_points env q vals k) \<le> length (filter (match_any vals) (collection env))"
  by (simp add: query_points_def)

lemma sorted_neg_descending:
  fixes xs :: "rat list"
  shows "sorted (map uminus xs) \<Longrightarrow> descending xs"
  by (simp add: descending_def sorted_map sorted_wrt_rev)

lemma query_points_descending: "descending (map snd (query_points env q vals k))"
proof -
  let ?xs = "map (\<lambda>p. (p, similarity env q (vector p))) (filter (match_any vals) (collection env))"
  let ?f = "\<lambda>h :: point \<times> rat. - snd h"
  have "sorted (take k (map ?f (sort_key ?f ?xs)))"
    by (rule sorted_wrt_take) (rule sorted_sort_key)
  then have "sorted (map ?f (take k (sort_key ?f ?xs)))"
    by (simp only: take_map)
  then have "sorted (map uminus (map snd (query_points env q vals k)))"
    by (simp add: query_points_def comp_def)
  then show ?thesis by (rule sorted_neg_descending)
qed

lemma matching_points_bound:
  assumes "distinct (map (\<lambda>p. map_of (payload p) ''parent_asin'') (filter (match_any vals) (collection env)))"
  shows "length (filter (match_any vals) (collection env)) \<le> length vals"
proof -
  let ?ps = "filter (match_any vals) (collection env)"
  let ?g = "\<lambda>p. map_of (payload p) ''parent_asin''"
  let ?h = "\<lambda>v. case v of None \<Rightarrow> None | Some a \<Rightarrow> Some (PStr a)"
  have sub: "set (map ?g ?ps) \<subseteq> ?h ` set vals"
  proof
    fix x assume "x \<in> set (map ?g ?ps)"
    then obtain p where p: "match_any vals p" "x = ?g p" by auto
    then obtain a where "?g p = Some (PStr a)" "Some a \<in> set vals"
      by (auto simp: match_any_def split: option.splits pyval.splits)
    then show "x \<in> ?h ` set vals" using p by force
  qed
  have "length ?ps = card (set (map ?g ?ps))"
    using assms distinct_card [of "map ?g ?ps"] by simp
  also have "\<dots> \<le> card (?h ` set vals)"
    by (rule card_mono [OF _ sub]) simp
  also have "\<dots> \<le> card (set vals)"
    by (rule card_image_le) simp
  also have "\<dots> \<le> length vals"
    by (rule card_length)
  finally show ?thesis .
qed

text \<open>
  Claim C5, as amended. For a candidate set of size C, not empty, and a limit k, the
  four sequences \<open>hybrid_retrieve\<close> returns have one length, which is at most k, and
  \<open>filter_count\<close> is C. The length is at most min(k, C), and so at most
  \<open>filter_count\<close>, when no two points of the collection that match the candidates
  carry the same \<open>parent_asin\<close>.
\<close>

theorem hybrid_retrieve_result_lengths:
  assumes "candidates env f = Inr cands" and "cands \<noteq> []"
    and "snd (hybrid_retrieve env semantic_query (PDict f) (Some k)) = Inr r"
  shows "length (retrieved_context_ids r) = length (similarity_scores r) \<and>
         length (retrieved_context r) = length (similarity_scores r) \<and>
         length (retrieved_context_ratings r) = length (similarity_scores r) \<and>
         length (similarity_scores r) \<le> k \<and>
         filter_count r = length cands \<and>
         (distinct (map (\<lambda>p. map_of (payload p) ''parent_asin'')
                      (filter (match_any cands) (collection env))) \<longrightarrow>
            length (similarity_scores r) \<le> min k (length cands) \<and>
            length (similarity_scores r) \<le> filter_count r)"
proof -
  let ?hs = "query_points env (get_embedding env semantic_query) cands k"
  have "collect_points ?hs
          \<lparr>retrieved_context_ids = [], retrieved_context = [], retrieved_context_ratings = [],
           similarity_scores = [], filter_count = length cands\<rparr> = Inr r"
    using assms by (simp add: hybrid_retrieve_dict Let_def)
  from collect_points_shape [OF this]
  have shape: "length (retrieved_context_ids r) = length ?hs"
    "length (retrieved_context r) = length ?hs"
    "length (retrieved_context_ratings r) = length ?hs"
    "length (similarity_scores r) = length ?hs"
    "filter_count r = length cands"
    by simp_all
  have k: "length ?hs \<le> k" by (rule length_query_points)
  have c: "length ?hs \<le> length cands"
    if "distinct (map (\<lambda>p. map_of (payload p) ''parent_asin'')
                    (filter (match_any cands) (collection env)))"
    using matching_points_bound [OF that] length_query_points_matching [of env _ cands k]
    by (rule order_trans [rotated])
  show ?thesis using shape k c by simp
qed

lemma requested_limits_append:
  "requested_limits (a @ b) = requested_limits a @ requested_limits b"
  by (simp add: requested_limits_def)

lemma hybrid_retrieve_limit:
  assumes "snd (hybrid_retrieve env sq filters k_arg) = Inr r"
  shows "set (requested_limits (fst (hybrid_retrieve env sq filters k_arg)))
           \<subseteq> {case k_arg of None \<Rightarrow> 10 | Some n \<Rightarrow> n} \<and>
         length (similarity_scores r) \<le> (case k_arg of None \<Rightarrow> 10 | Some n \<Rightarrow> n) \<and>
         descending (similarity_scores r)"
proof -
  let ?k = "case k_arg of None \<Rightarrow> 10 | Some n \<Rightarrow> n"
  obtain f where f: "filters = PDict f"
    using assms by (cases filters) (simp_all add: hybrid_retrieve_def)
  note c1 = get_asins_calls [of env "dict_get f ''min_price''" "dict_get f ''max_price''"
      "dict_get f ''min_rating''" "dict_get f ''category''" 100]
  show ?thesis
  proof (cases "candidates env f")
    case (Inl e)
    then show ?thesis using assms by (simp add: f hybrid_retrieve_dict Let_def)
  next
    case (Inr cands)
    show ?thesis
    proof (cases "cands = []")
      case True
      then show ?thesis
        using assms Inr c1 by (auto simp: f hybrid_retrieve_dict Let_def descending_def)
    next
      case False
      let ?hs = "query_points env (get_embedding env sq) cands ?k"
      have "collect_points ?hs
              \<lparr>retrieved_context_ids = [], retrieved_context = [], retrieved_context_ratings = [],
               similarity_scores = [], filter_count = length cands\<rparr> = Inr r"
        using assms Inr False by (simp add: f hybrid_retrieve_dict Let_def)
      from collect_points_shape [OF this]
      have s: "similarity_scores r = map snd ?hs" by simp
      have "requested_limits (fst (hybrid_retrieve env sq filters k_arg)) = [?k]"
        using Inr False c1 by (simp add: f hybrid_retrieve_dict Let_def requested_limits_def)
      then show ?thesis
        using s length_query_points [of env _ cands ?k] query_points_descending [of env _ cands ?k]
        by simp
    qed
  qed
qed

lemma route_query_limits: "requested_limits (fst (route_query env q)) = []"
proof (cases "fst (snd (classify_intent env q)) = HYBRID")
  case True
  then show ?thesis by (simp add: route_query_hybrid_calls requested_limits_def)
next
  case False
  then show ?thesis by (simp add: route_query_not_hybrid requested_limits_def)
qed

lemma hybrid_pipeline_result:
  assumes "snd (hybrid_pipeline env question fa sa top_k_arg) = Inr out"
  shows "\<exists>c0 sq filters r c2.
           requested_limits c0 = [] \<and> requested_limits c2 = [] \<and>
           fst (hybrid_pipeline env question fa sa top_k_arg) =
             c0 @ fst (hybrid_retrieve env sq filters
                         (Some (case top_k_arg of None \<Rightarrow> 5 | Some n \<Rightarrow> n))) @ c2 \<and>
           snd (hybrid_retrieve env sq filters
                  (Some (case top_k_arg of None \<Rightarrow> 5 | Some n \<Rightarrow> n))) = Inr r \<and>
           map_of out ''similarity_scores'' = Some (PList (map PFloat (similarity_scores r)))"
proof -
  let ?k = "case top_k_arg of None \<Rightarrow> 5 | Some n \<Rightarrow> n"
  define P where "P =
    (if fa = PNone
     then (case route_query env question of
             (c, Inl e) \<Rightarrow> (c, Inl e)
           | (c, Inr route_result) \<Rightarrow>
               (c, Inr (dict_get_default route_result ''filters'' (PDict []),
                        dict_get_default route_result ''semantic_query'' (PStr question))))
     else ([], Inr (fa, sa)))"
  obtain c0 res where P: "P = (c0, res)" by (cases P)
  have c0: "requested_limits c0 = []"
  proof (cases "fa = PNone")
    case True
    then have "c0 = fst (route_query env question)"
      using P by (auto simp: P_def split: prod.splits sum.splits)
    then show ?thesis by (simp add: route_query_limits)
  next
    case False
    then show ?thesis using P by (simp add: P_def requested_limits_def)
  qed
  have unfold: "hybrid_pipeline env question fa sa top_k_arg =
    (case res of
       Inl e \<Rightarrow> (c0, Inl e)
     | Inr (filters, sq0) \<Rightarrow>
         (let sq = (if sq0 = PNone then PStr question else sq0)
          in case hybrid_retrieve env sq filters (Some ?k) of
               (c1, Inl e) \<Rightarrow> (c0 @ c1, Inl e)
             | (c1, Inr retrieved) \<Rightarrow>
                 (case filters of
                    PDict f \<Rightarrow>
                      (let formatted_context = format_hybrid_context env retrieved f;
                           prompt = build_hybrid_prompt env formatted_context question f;
                           (c2, answer) = hybrid_generate env prompt
                       in (c0 @ c1 @ c2,
                           Inr [(''answer'', PStr answer),
                                (''question'', PStr question),
                                (''intent'', PStr ''hybrid''),
                                (''filters'', filters),
                                (''semantic_query'', sq),
                                (''retrieved_context_ids'', PList (retrieved_context_ids retrieved)),
                                (''retrieved_context'', PList (retrieved_context retrieved)),
                                (''similarity_scores'', PList (map PFloat (similarity_scores retrieved))),
                                (''filter_count'', PInt (int (filter_count retrieved)))]))
                  | _ \<Rightarrow> (c0 @ c1, Inl (AttributeError ''get'')))))"
    unfolding hybrid_pipeline_def Let_def P_def [symmetric] P by simp
  from assms obtain fl sq0 where res: "res = Inr (fl, sq0)"
    unfolding unfold by (cases res) auto
  define sq where "sq = (if sq0 = PNone then PStr question else sq0)"
  obtain c1 rr where hr: "hybrid_retrieve env sq fl (Some ?k) = (c1, rr)"
    by (cases "hybrid_retrieve env sq fl (Some ?k)")
  from assms obtain r where rr: "rr = Inr r"
    unfolding unfold res by (cases rr) (simp_all add: Let_def sq_def [symmetric] hr)
  from assms hr rr obtain f where fl: "fl = PDict f"
    unfolding unfold res
    by (cases fl) (auto simp: Let_def sq_def [symmetric])
  let ?c2 = "[LlmHybrid (build_hybrid_prompt env (format_hybrid_context env r f) question f)]"
  have whole: "hybrid_pipeline env question fa sa top_k_arg =
      (c0 @ c1 @ ?c2,
       Inr [(''answer'', PStr (llm_hybrid env
               (build_hybrid_prompt env (format_hybrid_context env r f) question f))),
            (''question'', PStr question),
            (''intent'', PStr ''hybrid''),
            (''filters'', fl),
            (''semantic_query'', sq),
            (''retrieved_context_ids'', PList (retrieved_context_ids r)),
            (''retrieved_context'', PList (retrieved_context r)),
            (''similarity_scores'', PList (map PFloat (similarity_scores r))),
            (''filter_count'', PInt (int (filter_count r)))])"
    unfolding unfold res
    by (simp add: Let_def sq_def [symmetric] hr [unfolded fl] rr fl hybrid_generate_def)
  have out: "map_of out ''similarity_scores'' = Some (PList (map PFloat (similarity_scores r)))"
    using assms unfolding whole by auto
  have "requested_limits c0 = [] \<and> requested_limits ?c2 = [] \<and>
        fst (hybrid_pipeline env question fa sa top_k_arg) =
          c0 @ fst (hybrid_retrieve env sq fl (Some ?k)) @ ?c2 \<and>
        snd (hybrid_retrieve env sq fl (Some ?k)) = Inr r \<and>
        map_of out ''similarity_scores'' = Some (PList (map PFloat (similarity_scores r)))"
    using c0 out by (simp add: whole hr rr requested_limits_def)
  then show ?thesis by blast
qed

text \<open>
  Claim C8, as amended. Called without a limit, \<open>hybrid_retrieve\<close> asks the search for
  10 hits and \<open>hybrid_pipeline\<close> for 5. In both the hits returned are no more than
  the limit asked for and run from the best similarity score down.
\<close>

theorem default_result_limits:
  "(snd (hybrid_retrieve env semantic_query filters None) = Inr r \<longrightarrow>
      set (requested_limits (fst (hybrid_retrieve env semantic_query filters None))) \<subseteq> {10} \<and>
      length (similarity_scores r) \<le> 10 \<and> descending (similarity_scores r)) \<and>
   (snd (hybrid_pipeline env question filters_arg semantic_query_arg None) = Inr out \<longrightarrow>
      set (requested_limits (fst (hybrid_pipeline env question filters_arg semantic_query_arg None)))
        \<subseteq> {5} \<and>
      (\<exists>scores. map_of out ''similarity_scores'' = Some (PList (map PFloat scores)) \<and>
         length scores \<le> 5 \<and> descending scores))"
proof (intro conjI impI)
  assume a: "snd (hybrid_retrieve env semantic_query filters None) = Inr r"
  from hybrid_retrieve_limit [OF a]
  show "set (requested_limits (fst (hybrid_retrieve env semantic_query filters None))) \<subseteq> {10}"
    and "length (similarity_scores r) \<le> 10" and "descending (similarity_scores r)"
    by simp_all
next
  assume b: "snd (hybrid_pipeline env question filters_arg semantic_query_arg None) = Inr out"
  from hybrid_pipeline_result [OF b] obtain c0 sq fl r' c2 where
    h: "requested_limits c0 = []" "requested_limits c2 = []"
       "fst (hybrid_pipeline env question filters_arg semantic_query_arg None) =
          c0 @ fst (hybrid_retrieve env sq fl (Some 5)) @ c2"
       "snd (hybrid_retrieve env sq fl (Some 5)) = Inr r'"
       "map_of out ''similarity_scores'' = Some (PList (map PFloat (similarity_scores r')))"
    by auto
  note l = hybrid_retrieve_limit [OF h(4)]
  show "set (requested_limits (fst (hybrid_pipeline env question filters_arg semantic_query_arg None)))
          \<subseteq> {5}"
    using l h(1,2) by (simp add: h(3) requested_limits_append)
  show "\<exists>scores. map_of out ''similarity_scores'' = Some (PList (map PFloat scores)) \<and>
          length scores \<le> 5 \<and> descending scores"
    using l h(5) by auto
qed

theorem hybrid_retrieve_empty_candidates_witness:
  "candidates shop [(''max_price'', PInt 1)] = Inr [] \<and>
   snd (hybrid_retrieve shop (PStr ''a lamp'') (PDict [(''max_price'', PInt 1)]) (Some 5)) =
     Inr \<lparr>retrieved_context_ids = [], retrieved_context = [],
          retrieved_context_ratings = [], similarity_scores = [], filter_count = 0\<rparr> \<and>
   embedding_calls (fst (hybrid_retrieve shop (PStr ''a lamp'') (PDict [(''max_price'', PInt 1)]) (Some 5))) = 0 \<and>
   search_calls (fst (hybrid_retrieve shop (PStr ''a lamp'') (PDict [(''max_price'', PInt 1)]) (Some 5))) = 0"
proof -
  have h: "candidates shop [(''max_price'', PInt 1)] = Inr []"
    by code_simp
  show ?thesis
    using h hybrid_retrieve_empty_candidates [OF h, of "PStr ''a lamp''" "Some 5"] by simp
qed

theorem hybrid_retrieve_result_lengths_witness:
  "candidates shop [(''category'', PStr ''home'')] = Inr [Some ''E'', Some ''F''] \<and>
   snd (hybrid_retrieve shop (PStr ''a lamp'') (PDict [(''category'', PStr ''home'')]) (Some 5)) =
     Inr \<lparr>retrieved_context_ids = [PStr ''F'', PStr ''E''],
          retrieved_context = [PStr ''lamp'', PStr ''kettle''],
          retrieved_context_ratings = [PFloat 5, PFloat 3],
          similarity_scores = [3 / 8, 1 / 8], filter_count = 2\<rparr> \<and>
   distinct (map (\<lambda>p. map_of (payload p) ''parent_asin'')
               (filter (match_any [Some ''E'', Some ''F'']) (collection shop))) \<and>
   length [3 / 8, 1 / 8 :: rat] \<le> min 5 (length [Some ''E'', Some ''F''])"
proof -
  have c: "candidates shop [(''category'', PStr ''home'')] = Inr [Some ''E'', Some ''F'']"
    by code_simp
  have n: "[Some ''E'', Some ''F''] \<noteq> []"
    by simp
  have r: "snd (hybrid_retrieve shop (PStr ''a lamp'') (PDict [(''category'', PStr ''home'')]) (Some 5)) =
     Inr \<lparr>retrieved_context_ids = [PStr ''F'', PStr ''E''],
          retrieved_context = [PStr ''lamp'', PStr ''kettle''],
          retrieved_context_ratings = [PFloat 5, PFloat 3],
          similarity_scores = [3 / 8, 1 / 8], filter_count = 2\<rparr>"
    by code_simp
  have d: "distinct (map (\<lambda>p. map_of (payload p) ''parent_asin'')
               (filter (match_any [Some ''E'', Some ''F'']) (collection shop)))"
    by code_simp
  show ?thesis
    using c r d hybrid_retrieve_result_lengths [OF c n r] by simp
qed

text \<open>
  Two products of the shop are variations under the parent A, and the collection has a
  point for each. With the one candidate A, the search returns both points: two hits
  for a candidate set of size one.
\<close>

theorem hybrid_retrieve_shared_parent_counterexample:
  "candidates shop [(''category'', PStr ''toys'')] = Inr [Some ''A''] \<and>
   snd (hybrid_retrieve shop (PStr ''blocks'') (PDict [(''category'', PStr ''toys'')]) (Some 5)) =
     Inr \<lparr>retrieved_context_ids = [PStr ''A'', PStr ''A''],
          retrieved_context = [PStr ''wooden blocks, blue'', PStr ''wooden blocks, red''],
          retrieved_context_ratings = [PFloat 4, PFloat 4],
          similarity_scores = [3 / 4, 1 / 2], filter_count = 1\<rparr> \<and>
   \<not> result_size (snd (hybrid_retrieve shop (PStr ''blocks'')
                        (PDict [(''category'', PStr ''toys'')]) (Some 5)))
       \<le> min 5 (length [Some ''A''])"
  by code_simp

theorem default_result_limits_witness:
  "snd (hybrid_retrieve shop (PStr ''anything'') (PDict [(''category'', PStr ''home'')]) None) =
     Inr \<lparr>retrieved_context_ids = [PStr ''F'', PStr ''E''],
          retrieved_context = [PStr ''lamp'', PStr ''kettle''],
          retrieved_context_ratings = [PFloat 5, PFloat 3],
          similarity_scores = [3 / 8, 1 / 8], filter_count = 2\<rparr> \<and>
   set (requested_limits (fst (hybrid_retrieve shop (PStr ''anything'')
          (PDict [(''category'', PStr ''home'')]) None))) \<subseteq> {10} \<and>
   descending [3 / 8, 1 / 8] \<and>
   snd (hybrid_pipeline shop ''best headphones under $100'' PNone PNone None) =
     Inr [(''answer'', PStr ''Here is what I found.''),
          (''question'', PStr ''best headphones under $100''),
          (''intent'', PStr ''hybrid''),
          (''filters'',
           PDict [(''min_price'', PNone), (''max_price'', PNone), (''min_rating'', PNone),
                  (''category'', PNone), (''sort_by'', PNone), (''limit'', PNone)]),
          (''semantic_query'', PStr ''best headphones under $100''),
          (''retrieved_context_ids'',
           PList [PStr ''C'', PStr ''A'', PStr ''G'', PStr ''A'', PStr ''F'']),
          (''retrieved_context'',
           PList [PStr ''headphones'', PStr ''wooden blocks, blue'', PStr ''camera'',
                  PStr ''wooden blocks, red'', PStr ''lamp'']),
          (''similarity_scores'',
           PList [PFloat (9 / 10), PFloat (3 / 4), PFloat (5 / 8), PFloat (1 / 2), PFloat (3 / 8)]),
          (''filter_count'', PInt 6)] \<and>
   set (requested_limits (fst (hybrid_pipeline shop ''best headphones under $100'' PNone PNone None)))
     \<subseteq> {5}"
proof -
  have a: "snd (hybrid_retrieve shop (PStr ''anything'') (PDict [(''category'', PStr ''home'')]) None) =
     Inr \<lparr>retrieved_context_ids = [PStr ''F'', PStr ''E''],
          retrieved_context = [PStr ''lamp'', PStr ''kettle''],
          retrieved_context_ratings = [PFloat 5, PFloat 3],
          similarity_scores = [3 / 8, 1 / 8], filter_count = 2\<rparr>"
    by code_simp
  have b: "snd (hybrid_pipeline shop ''best headphones under $100'' PNone PNone None) =
     Inr [(''answer'', PStr ''Here is what I found.''),
          (''question'', PStr ''best headphones under $100''),
          (''intent'', PStr ''hybrid''),
          (''filters'',
           PDict [(''min_price'', PNone), (''max_price'', PNone), (''min_rating'', PNone),
                  (''category'', PNone), (''sort_by'', PNone), (''limit'', PNone)]),
          (''semantic_query'', PStr ''best headphones under $100''),
          (''retrieved_context_ids'',
           PList [PStr ''C'', PStr ''A'', PStr ''G'', PStr ''A'', PStr ''F'']),
          (''retrieved_context'',
           PList [PStr ''headphones'', PStr ''wooden blocks, blue'', PStr ''camera'',
                  PStr ''wooden blocks, red'', PStr ''lamp'']),
          (''similarity_scores'',
           PList [PFloat (9 / 10), PFloat (3 / 4), PFloat (5 / 8), PFloat (1 / 2), PFloat (3 / 8)]),
          (''filter_count'', PInt 6)]"
    by code_simp
  have d: "descending [3 / 8, 1 / 8]"
    by code_simp
  show ?thesis
    using a b d
      default_result_limits [where env = shop and semantic_query = "PStr ''anything''"
        and filters = "PDict [(''category'', PStr ''home'')]"
        and question = "''best headphones under $100''"
        and filters_arg = PNone and semantic_query_arg = PNone]
    by simp
qed

text \<open>
  \<open>hybrid_retrieve\<close> called without \<open>k\<close> on the shop, with no filter: the search is
  asked for 10 hits and 7 come back, more than 5.
\<close>

theorem hybrid_retrieve_default_limit_counterexample:
  "result_size (snd (hybrid_retrieve shop (PStr ''anything'') (PDict []) None)) = 7 \<and>
   requested_limits (fst (hybrid_retrieve shop (PStr ''anything'') (PDict []) None)) = [10] \<and>
   \<not> result_size (snd (hybrid_retrieve shop (PStr ''anything'') (PDict []) None)) \<le> 5"
  by code_simp

section \<open>The guard of the SQL agent\<close>
















section \<open>The candidate resolver\<close>



















section \<open>The context formatter\<close>





text \<open>The integer \<open>fmt_2f\<close> prints is within a half of a hundredth of the score.\<close>

lemma round_half_even_close: "\<bar>of_int (round_half_even x) - x\<bar> \<le> 1 / 2"
proof -
  have "of_int \<lfloor>x\<rfloor> \<le> x" "x < of_int \<lfloor>x\<rfloor> + 1"
    by linarith+
  then show ?thesis
    by (auto simp: round_half_even_def Let_def abs_le_iff)
qed



end
